theory Spec2Isabelle
  imports Main "HOL-Library.AList"
begin

section \<open>Python values: exceptions and dictionaries\<close>

text \<open>
  The server (\<^verbatim>\<open>arcor2/nodes/server.py\<close>) keeps its state in module-level globals and
  signals failure either by returning \<^verbatim>\<open>(False, message)\<close> or by raising. Every raise
  of the source is a value of \<open>error\<close> here.
\<close>

datatype error =
    KeyError
  | UnboundLocalError
  | AssertionError
  | NotImplementedError
  | TypeError string
  | Arcor2Exception string
  | RobotPoseException string
  | PersistentStorageException string
  | SceneObjectNotFound
  | AttributeError
  | ConnectionClosed
  | QueueFull

text \<open>
  A Python \<^verbatim>\<open>dict\<close> keeps its keys in insertion order: assigning to an existing key
  replaces the value in place, assigning to a new key appends. That is
  \<^const>\<open>AList.update\<close> on the list of items; \<^verbatim>\<open>del d[k]\<close> is \<^const>\<open>AList.delete\<close>,
  \<^verbatim>\<open>d[k]\<close> is \<^const>\<open>map_of\<close> (\<open>None\<close> standing for the KeyError), \<^verbatim>\<open>d.keys()\<close> and
  \<^verbatim>\<open>d.values()\<close> are the projections of the items.
\<close>

type_synonym ('k, 'v) dict = "('k \<times> 'v) list"

definition keys :: "('k, 'v) dict \<Rightarrow> 'k list" where
  "keys d = map fst d"

definition dict_values :: "('k, 'v) dict \<Rightarrow> 'v list" where
  "dict_values d = map snd d"

text \<open>A dict comprehension \<^verbatim>\<open>{k: v for ...}\<close> assigns the items one after the other.\<close>

definition dict_of :: "('k \<times> 'v) list \<Rightarrow> ('k, 'v) dict" where
  "dict_of items = foldl (\<lambda>d kv. AList.update (fst kv) (snd kv) d) [] items"

text \<open>\<^verbatim>\<open>d1 == d2\<close> on dicts: the same keys with the same values, whatever the order.\<close>

definition dict_eq :: "('k, 'v) dict \<Rightarrow> ('k, 'v) dict \<Rightarrow> bool" where
  "dict_eq d1 d2 = list_all (\<lambda>k. map_of d1 k = map_of d2 k) (keys d1 @ keys d2)"

text \<open>A \<^verbatim>\<open>for\<close> loop whose body may raise: the first raise ends the loop.\<close>

fun for_each :: "('a \<Rightarrow> 's \<Rightarrow> error + 's) \<Rightarrow> 'a list \<Rightarrow> 's \<Rightarrow> error + 's" where
  "for_each body [] s = Inr s"
| "for_each body (x # xs) s =
     (case body x s of Inl e \<Rightarrow> Inl e | Inr s' \<Rightarrow> for_each body xs s')"

section \<open>Data model of the validator\<close>

text \<open>
  The classes of \<^verbatim>\<open>arcor2.data.common\<close> and \<^verbatim>\<open>arcor2.data.object_type\<close>, with the
  fields \<^verbatim>\<open>project_problems\<close> reads. A pose is an opaque value: the server only
  stores and compares poses.
\<close>

datatype Pose = Pose nat

datatype ActionParameterTypeEnum =
  STRING | DOUBLE | INTEGER | STRING_ENUM | INTEGER_ENUM | POSE | JOINTS

record RobotJoints =
  joints_id :: string
  joints_robot_id :: string
  is_valid :: bool

record ActionParameter =
  param_id :: string
  param_type :: ActionParameterTypeEnum
  param_value :: string

record Action =
  action_id :: string
  action_type :: string
  parameters :: "ActionParameter list"

record ActionPoint =
  ap_id :: string
  robot_joints :: "RobotJoints list"
  actions :: "Action list"

record ProjectObject =
  po_id :: string
  action_points :: "ActionPoint list"

record Project =
  project_id :: string
  project_scene_id :: string
  project_objects :: "ProjectObject list"

record SceneObject =
  so_id :: string
  so_type :: string
  so_pose :: Pose

record SceneService =
  srv_type :: string
  configuration_id :: string

record Scene =
  scene_id :: string
  scene_objects :: "SceneObject list"
  scene_services :: "SceneService list"

text \<open>An entry of the action catalogue \<^verbatim>\<open>ACTIONS[type]\<close> and one of its arguments.\<close>

record ObjectActionArg =
  arg_name :: string
  arg_type :: ActionParameterTypeEnum

record ObjectAction =
  oa_name :: string
  action_args :: "ObjectActionArg list"

type_synonym ObjectActionsDict = "(string, ObjectAction list) dict"

section \<open>The validator: \<^verbatim>\<open>project_problems\<close>\<close>

text \<open>
  \<^verbatim>\<open>Action.parse_type\<close> and \<^verbatim>\<open>ActionParameter.parse_id\<close> live in
  \<^verbatim>\<open>arcor2.data.common\<close>, outside the files at hand, so the validator takes them as
  parameters \<open>parse_type\<close> and \<open>parse_id\<close>; each returns the parts or raises.
\<close>

type_synonym parse_type_fn = "Action \<Rightarrow> error + string \<times> string"
type_synonym parse_id_fn = "ActionParameter \<Rightarrow> error + string \<times> string \<times> string"

text \<open>
  The inner \<^verbatim>\<open>for act in ACTIONS[os_type]: if action_type == act.name: break\<close>.
  The loop variable \<^verbatim>\<open>act\<close> is a local of \<^verbatim>\<open>project_problems\<close>: it keeps the value of
  the last iteration, and it is unbound (\<open>None\<close>) until some loop has run once. The
  result is the variable after the loop and whether the loop left by \<^verbatim>\<open>break\<close>.
\<close>

fun for_act :: "string \<Rightarrow> ObjectAction list \<Rightarrow> ObjectAction option \<Rightarrow> ObjectAction option \<times> bool" where
  "for_act action_type' [] act = (act, False)"
| "for_act action_type' (a # as) act =
     (if action_type' = oa_name a then (Some a, True) else for_act action_type' as (Some a))"

text \<open>The body of \<^verbatim>\<open>for param in action.parameters\<close> (validation of parameter values).\<close>

definition check_param ::
  "parse_id_fn \<Rightarrow> (string, string set) dict \<Rightarrow> Action \<Rightarrow> ActionParameter \<Rightarrow> string list
   \<Rightarrow> error + string list" where
  "check_param parse_id objects_aps action param problems =
     (if param_type param = POSE \<or> param_type param = JOINTS then
        (case parse_id param of
           Inl (Arcor2Exception e) \<Rightarrow> Inr (problems @ [e])
         | Inl e \<Rightarrow> Inl e
         | Inr (p_obj_id, p_ap_id, val_id) \<Rightarrow>
             (let problems1 =
                (if p_obj_id \<in> set (keys objects_aps) then problems
                 else problems @ [''Parameter '' @ param_id param @ '' of action '' @ action_id action
                        @ '' refers to non-existent object id.''])
              in case map_of objects_aps p_obj_id of
                   None \<Rightarrow> Inl KeyError
                 | Some aps \<Rightarrow>
                     Inr (if p_ap_id \<in> aps then problems1
                          else problems1 @ [''Parameter '' @ param_id param @ '' of action ''
                                 @ action_id action
                                 @ '' refers to non-existent action point of object id ''
                                 @ p_obj_id @ ''.''])))
      else Inr problems)"

text \<open>
  The body of \<^verbatim>\<open>for action in ap.actions\<close>. The state of the loops is the list
  \<^verbatim>\<open>problems\<close> and the variable \<^verbatim>\<open>act\<close>. \<^verbatim>\<open>action_ids\<close> is passed in as the source
  reads it; the source never adds to it.

  \<^verbatim>\<open>ot_params\<close> is \<^verbatim>\<open>{param.name: param.type for param in act.action_args
  for act in ACTIONS[os_type]}\<close>: Python evaluates the first iterable,
  \<^verbatim>\<open>act.action_args\<close>, in the enclosing scope, so \<^verbatim>\<open>act\<close> is the variable left by the
  loop above (UnboundLocalError when it was never bound), and every argument of it is
  listed once per entry of \<^verbatim>\<open>ACTIONS[os_type]\<close>.
\<close>

definition check_action ::
  "parse_type_fn \<Rightarrow> parse_id_fn \<Rightarrow> ObjectActionsDict \<Rightarrow> (string, string) dict \<Rightarrow> string set
   \<Rightarrow> (string, string set) dict \<Rightarrow> string set \<Rightarrow> ProjectObject \<Rightarrow> ActionPoint \<Rightarrow> Action
   \<Rightarrow> string list \<times> ObjectAction option \<Rightarrow> error + string list \<times> ObjectAction option" where
  "check_action parse_type parse_id ACTIONS scene_objs scene_srvs objects_aps action_ids obj ap
       action st =
     (let problems = fst st; act = snd st;
          problems1 =
            (if action_id action \<in> action_ids
             then problems @ [''Action ID '' @ action_id action @ '' of the '' @ po_id obj @ ''/''
                    @ ap_id ap @ '' is not unique.'']
             else problems)
      in case parse_type action of
           Inl e \<Rightarrow> Inl e
         | Inr (obj_id, action_type') \<Rightarrow>
             if obj_id \<in> set (keys scene_objs) \<union> scene_srvs then
               (let os_type = (case map_of scene_objs obj_id of Some t \<Rightarrow> t | None \<Rightarrow> obj_id)
                in case map_of ACTIONS os_type of
                     None \<Rightarrow> Inl KeyError
                   | Some acts \<Rightarrow>
                       (let (act1, found) = for_act action_type' acts act
                        in case (if found then Inr problems1
                                 else (case map_of scene_objs obj_id of
                                         None \<Rightarrow> Inl KeyError
                                       | Some t \<Rightarrow>
                                           Inr (problems1 @ [''Object type '' @ t
                                                  @ '' does not have action '' @ action_type'
                                                  @ '' used in '' @ action_id action @ ''.'']))) of
                             Inl e \<Rightarrow> Inl e
                           | Inr problems2 \<Rightarrow>
                               (case act1 of
                                  None \<Rightarrow> Inl UnboundLocalError
                                | Some a \<Rightarrow>
                                    (let action_params =
                                           dict_of (map (\<lambda>param. (param_id param, param_type param))
                                                      (parameters action));
                                         ot_params =
                                           dict_of (concat (map (\<lambda>param. map (\<lambda>act'. (arg_name param, arg_type param)) acts)
                                                              (action_args a)));
                                         problems3 =
                                           (if dict_eq action_params ot_params then problems2
                                            else problems2 @ [''Action ID '' @ action_id action
                                                   @ '' of type '' @ action_type action
                                                   @ '' has invalid parameters.''])
                                     in case for_each (check_param parse_id objects_aps action)
                                               (parameters action) problems3 of
                                          Inl e \<Rightarrow> Inl e
                                        | Inr problems4 \<Rightarrow> Inr (problems4, act1)))))
             else Inr (problems1 @ [''Object ID '' @ po_id obj @ '' which action is used in ''
                         @ action_id action @ '' does not exist in scene.''], act))"

text \<open>The body of \<^verbatim>\<open>for joints in ap.robot_joints\<close>.\<close>

definition check_joints :: "ActionPoint \<Rightarrow> RobotJoints \<Rightarrow> string list \<Rightarrow> string list" where
  "check_joints ap joints problems =
     (if is_valid joints then problems
      else problems @ [''Action point '' @ ap_id ap @ '' has invalid joints: '' @ joints_id joints
             @ '' (robot '' @ joints_robot_id joints @ '').''])"

text \<open>The body of \<^verbatim>\<open>for ap in obj.action_points\<close>.\<close>

definition check_ap ::
  "parse_type_fn \<Rightarrow> parse_id_fn \<Rightarrow> ObjectActionsDict \<Rightarrow> (string, string) dict \<Rightarrow> string set
   \<Rightarrow> (string, string set) dict \<Rightarrow> string set \<Rightarrow> ProjectObject \<Rightarrow> ActionPoint
   \<Rightarrow> string list \<times> ObjectAction option \<Rightarrow> error + string list \<times> ObjectAction option" where
  "check_ap parse_type parse_id ACTIONS scene_objs scene_srvs objects_aps action_ids obj ap st =
     for_each
       (check_action parse_type parse_id ACTIONS scene_objs scene_srvs objects_aps action_ids obj ap)
       (actions ap)
       (foldl (\<lambda>problems joints. check_joints ap joints problems) (fst st) (robot_joints ap), snd st)"

text \<open>The body of \<^verbatim>\<open>for obj in project.objects\<close>.\<close>

definition check_object ::
  "parse_type_fn \<Rightarrow> parse_id_fn \<Rightarrow> ObjectActionsDict \<Rightarrow> (string, string) dict \<Rightarrow> string set
   \<Rightarrow> (string, string set) dict \<Rightarrow> string set \<Rightarrow> ProjectObject
   \<Rightarrow> string list \<times> ObjectAction option \<Rightarrow> error + string list \<times> ObjectAction option" where
  "check_object parse_type parse_id ACTIONS scene_objs scene_srvs objects_aps action_ids obj st =
     (if po_id obj \<in> set (keys scene_objs) then
        for_each
          (check_ap parse_type parse_id ACTIONS scene_objs scene_srvs objects_aps action_ids obj)
          (action_points obj) st
      else Inr (fst st @ [''Object ID '' @ po_id obj @ '' does not exist in scene.''], snd st))"

text \<open>
  \<^verbatim>\<open>project_problems(scene, project)\<close>. The global \<^verbatim>\<open>ACTIONS\<close> is a parameter. The set
  \<^verbatim>\<open>action_ids\<close> is created empty and, as in the source, nothing is ever added to it.
\<close>

definition project_problems ::
  "parse_type_fn \<Rightarrow> parse_id_fn \<Rightarrow> ObjectActionsDict \<Rightarrow> Scene \<Rightarrow> Project \<Rightarrow> error + string list" where
  "project_problems parse_type parse_id ACTIONS scene project =
     (let scene_objs = dict_of (map (\<lambda>obj. (so_id obj, so_type obj)) (scene_objects scene));
          scene_srvs = set (map srv_type (scene_services scene));
          objects_aps = dict_of (map (\<lambda>obj. (po_id obj, set (map ap_id (action_points obj))))
                                   (project_objects project));
          action_ids = {};
          problems = []
      in case for_each
                (check_object parse_type parse_id ACTIONS scene_objs scene_srvs objects_aps action_ids)
                (project_objects project) (problems, None) of
           Inl e \<Rightarrow> Inl e
         | Inr st \<Rightarrow> Inr (fst st))"

text \<open>
  A type string of the form \<^verbatim>\<open>target/action\<close> and a parameter value of the form
  \<^verbatim>\<open>object.action_point.value\<close>, used to run the validator on concrete projects.
\<close>

definition split_at :: "char \<Rightarrow> string \<Rightarrow> string \<times> string" where
  "split_at c s = (takeWhile (\<lambda>x. x \<noteq> c) s, drop 1 (dropWhile (\<lambda>x. x \<noteq> c) s))"

definition slash_parse_type :: parse_type_fn where
  "slash_parse_type action =
     (if CHR ''/'' \<in> set (action_type action) then Inr (split_at CHR ''/'' (action_type action))
      else Inl (Arcor2Exception ''invalid type''))"

definition dot_parse_id :: parse_id_fn where
  "dot_parse_id param =
     (let (a, rest) = split_at CHR ''.'' (param_value param); (b, c) = split_at CHR ''.'' rest
      in if a = [] \<or> b = [] \<or> c = [] then Inl (Arcor2Exception ''invalid value'')
         else Inr (a, b, c))"

section \<open>The manager bridge\<close>

text \<open>
  \<^verbatim>\<open>MANAGER_RPC_REQUEST_QUEUE\<close> is an unbounded \<^verbatim>\<open>asyncio.Queue\<close>: \<^verbatim>\<open>put\<close> appends at
  the back and never blocks, \<^verbatim>\<open>get\<close> takes from the front. \<^verbatim>\<open>MANAGER_RPC_RESPONSES\<close>
  maps a request id to a queue of \<^verbatim>\<open>maxsize=1\<close>. \<open>manager_sent\<close> lists what
  \<^verbatim>\<open>manager_client.send\<close> has written to the connection.
\<close>

record Request =
  req_id :: int
  req_body :: string

record Response =
  resp_id :: int
  resp_body :: string

record bridge =
  MANAGER_RPC_REQUEST_QUEUE :: "Request list"
  MANAGER_RPC_RESPONSES :: "(int, Response list) dict"
  manager_sent :: "Request list"

text \<open>
  One iteration of the inner \<^verbatim>\<open>while True\<close> of \<^verbatim>\<open>project_manager_client\<close>. Everything
  the iteration cannot decide itself is given by a \<open>tick\<close>: whether the receiver task
  has ended (\<^verbatim>\<open>future.done()\<close>), the requests other tasks put while the iteration waited
  in \<^verbatim>\<open>get\<close> (at most one second) and while it waited in \<^verbatim>\<open>send\<close>, and whether
  \<^verbatim>\<open>send\<close> raised \<^verbatim>\<open>ConnectionClosed\<close>.
\<close>

record tick =
  future_done :: bool
  arrived_during_get :: "Request list"
  send_ok :: bool
  arrived_during_send :: "Request list"

datatype loop_ctl = Continue | Break

definition sender_iteration :: "tick \<Rightarrow> bridge \<Rightarrow> loop_ctl \<times> bridge" where
  "sender_iteration t b =
     (if future_done t then (Break, b)
      else (case MANAGER_RPC_REQUEST_QUEUE b @ arrived_during_get t of
              [] \<Rightarrow> (Continue, b)
            | msg # rest \<Rightarrow>
                if send_ok t
                then (Continue, b\<lparr>MANAGER_RPC_REQUEST_QUEUE := rest @ arrived_during_send t,
                                  manager_sent := manager_sent b @ [msg]\<rparr>)
                else (Break, b\<lparr>MANAGER_RPC_REQUEST_QUEUE := (rest @ arrived_during_send t) @ [msg]\<rparr>)))"

text \<open>
  The inner loop over the ticks of one connection. \<open>None\<close>: the loop is still running
  when the ticks are used up. \<open>Some\<close>: it left by \<^verbatim>\<open>break\<close>, with the ticks not used.
\<close>

fun sender_loop :: "tick list \<Rightarrow> bridge \<Rightarrow> (bridge \<times> tick list) option" where
  "sender_loop [] b = None"
| "sender_loop (t # ts) b =
     (case sender_iteration t b of
        (Break, b') \<Rightarrow> Some (b', ts)
      | (Continue, b') \<Rightarrow> sender_loop ts b')"

text \<open>
  The outer \<^verbatim>\<open>while True\<close>: each attempt to connect is refused (log, sleep one second,
  during which requests may arrive) or gives a connection, whose sender loop runs on the
  connection's ticks. The loop never ends; the function gives the bridge after the
  attempts listed.
\<close>

datatype attempt = Refused "Request list" | Connected "tick list"

fun project_manager_client :: "attempt list \<Rightarrow> bridge \<Rightarrow> bridge" where
  "project_manager_client [] b = b"
| "project_manager_client (Refused arrived # later) b =
     project_manager_client later
       (b\<lparr>MANAGER_RPC_REQUEST_QUEUE := MANAGER_RPC_REQUEST_QUEUE b @ arrived\<rparr>)"
| "project_manager_client (Connected ticks # later) b =
     (case sender_loop ticks b of
        None \<Rightarrow> fold (\<lambda>t b'. snd (sender_iteration t b')) ticks b
      | Some (b', unused) \<Rightarrow> project_manager_client later b')"








section \<open>The connection hub: \<^verbatim>\<open>notify\<close>\<close>





section \<open>The server state\<close>

text \<open>
  The catalogue entries (\<^verbatim>\<open>ObjectTypeMeta\<close>, \<^verbatim>\<open>ServiceTypeMeta\<close>, \<^verbatim>\<open>RobotMeta\<close>) and
  the live instances (\<^verbatim>\<open>Generic\<close>, \<^verbatim>\<open>Service\<close>), with the fields the server reads.
  \<open>focus_points\<close> is empty where the source has \<^verbatim>\<open>None\<close> or an empty list: the server
  only tests its truth and its length.
\<close>

datatype ModelTypeEnum = BOX | CYLINDER | SPHERE | MESH

record Mesh =
  mesh_id :: string
  focus_points :: "Pose list"

record ObjectModel =
  model_type :: ModelTypeEnum
  mesh :: "Mesh option"

record ObjectTypeMeta =
  meta_type :: string
  abstract :: bool
  needs_services :: "string set"
  object_model :: "ObjectModel option"

record ServiceTypeMeta =
  service_meta_type :: string

record RobotMeta =
  robot_meta_type :: string
  focus :: bool

record Generic =
  inst_id :: string
  inst_class_name :: string
  inst_is_robot :: bool
  inst_pose :: Pose
  collision_model :: "ObjectModel option"

record Service =
  service_class_name :: string
  is_robot_service :: bool
  service_configuration_id :: string

record RobotArg =
  robot_id :: string
  end_effector :: string

text \<open>
  What the server does to the world outside its globals, in the order it does it:
  log lines, calls of a robot service's \<^verbatim>\<open>add_collision\<close> / \<^verbatim>\<open>remove_collision\<close> (with
  the id of the object), calls into a robot or robot-service driver, and tasks started
  with \<^verbatim>\<open>asyncio.ensure_future\<close>.
\<close>

datatype event =
    LogMsg string
  | CollisionCall bool string
  | RobotQuery string
  | Scheduled string

record server =
  SCENE :: "Scene option"
  PROJECT :: "Project option"
  OBJECT_TYPES :: "(string, ObjectTypeMeta) dict"
  SERVICE_TYPES :: "(string, ServiceTypeMeta) dict"
  ROBOT_META :: "(string, RobotMeta) dict"
  SCENE_OBJECT_INSTANCES :: "(string, Generic) dict"
  SERVICES_INSTANCES :: "(string, Service) dict"
  FOCUS_OBJECT :: "(string, (int, Pose) dict) dict"
  FOCUS_OBJECT_ROBOT :: "(string, RobotArg) dict"
  trace :: "event list"

definition emit :: "event \<Rightarrow> server \<Rightarrow> server" where
  "emit ev st = st\<lparr>trace := trace st @ [ev]\<rparr>"

text \<open>
  A handler returns \<^verbatim>\<open>(False, message)\<close> or its payload (\<^verbatim>\<open>None\<close> where it has none).
  A procedure gives the state it leaves and either the exception it raised or its
  result: a raise does not undo what was done before it.
\<close>

datatype 'a rpc_return = Failed string | Done 'a

type_synonym 'a outcome = "server \<times> (error + 'a)"

text \<open>
  \<^verbatim>\<open>except Arcor2Exception\<close> catches the class and its subclasses:
  \<^verbatim>\<open>RobotPoseException\<close> (declared in the server), \<^verbatim>\<open>PersistentStorageException\<close> and
  \<^verbatim>\<open>SceneObjectNotFound\<close>.
\<close>

fun is_Arcor2Exception :: "error \<Rightarrow> bool" where
  "is_Arcor2Exception (Arcor2Exception m) = True"
| "is_Arcor2Exception (RobotPoseException m) = True"
| "is_Arcor2Exception (PersistentStorageException m) = True"
| "is_Arcor2Exception SceneObjectNotFound = True"
| "is_Arcor2Exception e = False"

fun error_str :: "error \<Rightarrow> string" where
  "error_str (Arcor2Exception m) = m"
| "error_str (RobotPoseException m) = m"
| "error_str (PersistentStorageException m) = m"
| "error_str (TypeError m) = m"
| "error_str e = []"

section \<open>The object and service registry\<close>

text \<open>
  The type definitions come from outside the server (\<^verbatim>\<open>otu.get_built_in_type\<close>, or
  \<^verbatim>\<open>storage\<close> and \<^verbatim>\<open>hlp.type_def_from_source\<close>), as do \<^verbatim>\<open>hlp.is_valid_identifier\<close>,
  the stored scenes and the robot service's answer to a collision call. They are the
  fields of \<open>registry_env\<close>. A class is its name, the annotations of its constructor
  (\<^verbatim>\<open>get_type_hints(cls.__init__)\<close>: a service type, by name, or something else) and the
  constructor itself, which returns the instance or raises.
\<close>

datatype hint = ServiceHint string | OtherHint

record ObjectClass =
  class_name :: string
  init_hints :: "hint list"
  construct :: "Service list \<Rightarrow> string \<Rightarrow> Pose \<Rightarrow> ObjectModel option \<Rightarrow> error + Generic"

record ServiceClass =
  is_RobotService_subclass :: bool
  construct_service :: "string \<Rightarrow> error + Service"

record registry_env =
  is_valid_identifier :: "string \<Rightarrow> bool"
  built_in_types_names :: "string set"
  get_built_in_type :: "string \<Rightarrow> ObjectClass"
  get_object_type :: "string \<Rightarrow> error + ObjectClass"
  get_service_type :: "string \<Rightarrow> error + ServiceClass"
  get_scene :: "string \<Rightarrow> error + Scene"
  collision_call :: "bool \<Rightarrow> Service \<Rightarrow> Generic \<Rightarrow> error option"

definition find_robot_service :: "server \<Rightarrow> Service option" where
  "find_robot_service st = find is_robot_service (dict_values (SERVICES_INSTANCES st))"

text \<open>
  \<^verbatim>\<open>collision(obj, rs, add=..., remove=...)\<close>; every caller sets exactly one of
  \<^verbatim>\<open>add\<close> and \<^verbatim>\<open>remove\<close>, so \<open>add\<close> alone is passed. An \<^verbatim>\<open>Arcor2Exception\<close> of the
  robot service is logged, any other exception leaves the procedure.
\<close>

definition collision :: "registry_env \<Rightarrow> Generic \<Rightarrow> Service option \<Rightarrow> bool \<Rightarrow> server \<Rightarrow> unit outcome" where
  "collision env obj rs add st =
     (case collision_model obj of
        None \<Rightarrow> (st, Inr ())
      | Some m \<Rightarrow>
          (case (case rs of None \<Rightarrow> find_robot_service st | Some r \<Rightarrow> Some r) of
             None \<Rightarrow> (st, Inr ())
           | Some r \<Rightarrow>
               (let st1 = emit (CollisionCall add (inst_id obj)) st
                in case collision_call env add r obj of
                     None \<Rightarrow> (st1, Inr ())
                   | Some e \<Rightarrow>
                       if is_Arcor2Exception e then (emit (LogMsg (error_str e)) st1, Inr ())
                       else (st1, Inl e))))"

text \<open>\<^verbatim>\<open>for obj_inst in SCENE_OBJECT_INSTANCES.values(): await collision(obj_inst, srv_inst, add=True)\<close>\<close>

fun collision_all :: "registry_env \<Rightarrow> Generic list \<Rightarrow> Service \<Rightarrow> server \<Rightarrow> unit outcome" where
  "collision_all env [] rs st = (st, Inr ())"
| "collision_all env (obj_inst # insts) rs st =
     (case collision env obj_inst (Some rs) True st of
        (st1, Inl e) \<Rightarrow> (st1, Inl e)
      | (st1, Inr u) \<Rightarrow> collision_all env insts rs st1)"

definition add_service_to_scene :: "registry_env \<Rightarrow> SceneService \<Rightarrow> server \<Rightarrow> (bool \<times> string) outcome" where
  "add_service_to_scene env srv st =
     (if srv_type srv \<notin> set (keys (SERVICE_TYPES st)) then (st, Inr (False, ''Unknown service type.''))
      else if srv_type srv \<in> set (keys (SERVICES_INSTANCES st))
      then (st, Inr (False, ''Service already in scene.''))
      else (case get_service_type env (srv_type srv) of
              Inl e \<Rightarrow> (st, Inl e)
            | Inr cls_def \<Rightarrow>
                if is_RobotService_subclass cls_def \<and> find_robot_service st \<noteq> None
                then (st, Inr (False, ''Scene might contain only one robot service.''))
                else (case construct_service cls_def (configuration_id srv) of
                        Inl e \<Rightarrow>
                          if is_Arcor2Exception e
                          then (emit (LogMsg (error_str e)) st, Inr (False, ''System error''))
                          else (st, Inl e)
                      | Inr srv_inst \<Rightarrow>
                          (let st1 = st\<lparr>SERVICES_INSTANCES :=
                                          AList.update (srv_type srv) srv_inst (SERVICES_INSTANCES st)\<rparr>
                           in if is_robot_service srv_inst then
                                (case collision_all env (dict_values (SCENE_OBJECT_INSTANCES st1)) srv_inst
                                        (emit (LogMsg ''RobotService added, adding collision models to all objects.'') st1) of
                                   (st2, Inl e) \<Rightarrow> (st2, Inl e)
                                 | (st2, Inr u) \<Rightarrow> (st2, Inr (True, ''ok'')))
                              else (st1, Inr (True, ''ok''))))))"

text \<open>
  The loop over the constructor's annotations in \<^verbatim>\<open>add_object_to_scene\<close>: the leading
  service-typed parameters are looked up in \<^verbatim>\<open>SERVICES_INSTANCES\<close>; \<open>Inl name\<close> is the
  KeyError for the service \<open>name\<close>.
\<close>

fun service_args :: "hint list \<Rightarrow> (string, Service) dict \<Rightarrow> Service list \<Rightarrow> string + Service list" where
  "service_args [] insts srv_args = Inr srv_args"
| "service_args (OtherHint # hints) insts srv_args = Inr srv_args"
| "service_args (ServiceHint name # hints) insts srv_args =
     (case map_of insts name of
        None \<Rightarrow> Inl name
      | Some s \<Rightarrow> service_args hints insts (srv_args @ [s]))"

text \<open>
  The \<^verbatim>\<open>try\<close> block of \<^verbatim>\<open>add_object_to_scene\<close> up to the new instance: the instance,
  an early \<^verbatim>\<open>return False, ...\<close> or an exception.
\<close>

datatype instantiation_result = Instance Generic | Returned string | Raised error

definition instantiate :: "registry_env \<Rightarrow> SceneObject \<Rightarrow> ObjectTypeMeta \<Rightarrow> server \<Rightarrow> instantiation_result" where
  "instantiate env obj obj_meta st =
     (case (if so_type obj \<in> built_in_types_names env then Inr (get_built_in_type env (so_type obj))
            else get_object_type env (so_type obj)) of
        Inl e \<Rightarrow> Raised e
      | Inr cls \<Rightarrow>
          (let coll_model = object_model obj_meta
           in if needs_services obj_meta = {} then
                (case construct cls [] (so_id obj) (so_pose obj) coll_model of
                   Inl e \<Rightarrow> Raised e
                 | Inr obj_inst \<Rightarrow> Instance obj_inst)
              else
                (case service_args (init_hints cls) (SERVICES_INSTANCES st) [] of
                   Inl name \<Rightarrow>
                     Returned (''Object type '' @ so_type obj
                       @ '' has invalid typ annotation in the constructor, service '' @ name
                       @ '' not available.'')
                 | Inr srv_args \<Rightarrow>
                     (case construct cls srv_args (so_id obj) (so_pose obj) coll_model of
                        Inl (TypeError e) \<Rightarrow> Returned (''System error ('' @ e @ '').'')
                      | Inl e \<Rightarrow> Raised e
                      | Inr obj_inst \<Rightarrow> Instance obj_inst))))"

definition add_object_to_scene ::
  "registry_env \<Rightarrow> SceneObject \<Rightarrow> bool \<Rightarrow> bool \<Rightarrow> server \<Rightarrow> (bool \<times> string) outcome" where
  "add_object_to_scene env obj add_to_scene srv_obj_ok st =
     (case SCENE st of
        None \<Rightarrow> (st, Inl AssertionError)
      | Some scene \<Rightarrow>
          (case map_of (OBJECT_TYPES st) (so_type obj) of
             None \<Rightarrow> (st, Inr (False, ''Unknown object type.''))
           | Some obj_meta \<Rightarrow>
               if srv_obj_ok \<and> \<not> needs_services obj_meta \<subseteq> set (keys (SERVICE_TYPES st))
               then (st, Inr (False, ''Some of required services is not available.''))
               else if srv_obj_ok \<and> \<not> needs_services obj_meta \<subseteq> set (keys (SERVICES_INSTANCES st))
               then (st, Inr (False, ''Some of required services is not in the scene.''))
               else if \<not> srv_obj_ok \<and> needs_services obj_meta \<noteq> {}
               then (st, Inr (False, ''Service(s)-based object.''))
               else if abstract obj_meta
               then (st, Inr (False, ''Cannot instantiate abstract type.''))
               else if so_id obj \<in> set (keys (SCENE_OBJECT_INSTANCES st))
                       \<or> so_id obj \<in> set (keys (SERVICES_INSTANCES st))
               then (st, Inr (False, ''Object/service with that id already exists.''))
               else if \<not> is_valid_identifier env (so_id obj)
               then (st, Inr (False, ''Object ID invalid (should be snake_case).''))
               else
                 (let st1 = emit (LogMsg (''Creating instance '' @ so_id obj @ '' ('' @ so_type obj @ '').'')) st
                  in case instantiate env obj obj_meta st1 of
                       Returned msg \<Rightarrow> (st1, Inr (False, msg))
                     | Raised e \<Rightarrow>
                         if is_Arcor2Exception e
                         then (emit (LogMsg (error_str e)) st1, Inr (False, ''System error''))
                         else (st1, Inl e)
                     | Instance obj_inst \<Rightarrow>
                         (let st2 = st1\<lparr>SCENE_OBJECT_INSTANCES :=
                                           AList.update (so_id obj) obj_inst (SCENE_OBJECT_INSTANCES st1)\<rparr>;
                              st3 = (if add_to_scene
                                     then st2\<lparr>SCENE := Some (scene\<lparr>scene_objects := scene_objects scene @ [obj]\<rparr>)\<rparr>
                                     else st2)
                          in case collision env obj_inst None True st3 of
                               (st4, Inl e) \<Rightarrow> (st4, Inl e)
                             | (st4, Inr u) \<Rightarrow> (st4, Inr (True, ''ok''))))))"

text \<open>The two loops of \<^verbatim>\<open>open_scene\<close>: a failure to add is logged and the loop goes on.\<close>

fun add_services :: "registry_env \<Rightarrow> SceneService list \<Rightarrow> server \<Rightarrow> unit outcome" where
  "add_services env [] st = (st, Inr ())"
| "add_services env (srv # srvs) st =
     (case add_service_to_scene env srv st of
        (st1, Inl e) \<Rightarrow> (st1, Inl e)
      | (st1, Inr (res, msg)) \<Rightarrow>
          add_services env srvs (if res then st1 else emit (LogMsg msg) st1))"

fun add_objects :: "registry_env \<Rightarrow> SceneObject list \<Rightarrow> server \<Rightarrow> unit outcome" where
  "add_objects env [] st = (st, Inr ())"
| "add_objects env (obj # objs) st =
     (case add_object_to_scene env obj False True st of
        (st1, Inl e) \<Rightarrow> (st1, Inl e)
      | (st1, Inr (res, msg)) \<Rightarrow>
          add_objects env objs (if res then st1 else emit (LogMsg msg) st1))"

definition open_scene :: "registry_env \<Rightarrow> string \<Rightarrow> server \<Rightarrow> unit outcome" where
  "open_scene env scene_id' st =
     (case get_scene env scene_id' of
        Inl e \<Rightarrow> (st, Inl e)
      | Inr scene \<Rightarrow>
          (case add_services env (scene_services scene) (st\<lparr>SCENE := Some scene\<rparr>) of
             (st1, Inl e) \<Rightarrow> (st1, Inl e)
           | (st1, Inr u) \<Rightarrow>
               (case add_objects env (scene_objects scene) st1 of
                  (st2, Inl e) \<Rightarrow> (st2, Inl e)
                | (st2, Inr u) \<Rightarrow>
                    (case SCENE st2 of
                       None \<Rightarrow> (st2, Inl AttributeError)
                     | Some scene2 \<Rightarrow>
                         if set (map srv_type (scene_services scene2)) \<noteq> set (keys (SERVICES_INSTANCES st2))
                         then (st2, Inl AssertionError)
                         else if set (map so_id (scene_objects scene2)) \<noteq> set (keys (SCENE_OBJECT_INSTANCES st2))
                         then (st2, Inl AssertionError)
                         else (emit (Scheduled ''notify_scene_change_to_others'') st2, Inr ())))))"

section \<open>Robot queries\<close>

text \<open>
  The drivers of robots and of the robot service are outside the server; \<open>robot_env\<close>
  holds their answers. Each call into a driver is recorded in the trace.
\<close>

record robot_env =
  get_end_effectors_ids :: "Generic \<Rightarrow> string list"
  get_robot_ids :: "Service \<Rightarrow> string list"
  service_get_end_effectors_ids :: "Service \<Rightarrow> string \<Rightarrow> string list"
  robot_get_end_effector_pose :: "Generic \<Rightarrow> string \<Rightarrow> error + Pose"
  service_get_end_effector_pose :: "Service \<Rightarrow> string \<Rightarrow> string \<Rightarrow> error + Pose"

datatype robot_inst = RobotObject Generic | RobotServiceInst Service

text \<open>\<^verbatim>\<open>if end_effector_id and ...\<close>: \<^verbatim>\<open>None\<close> and the empty string are false.\<close>

definition truthy :: "string option \<Rightarrow> bool" where
  "truthy s = (case s of None \<Rightarrow> False | Some x \<Rightarrow> x \<noteq> [])"

definition get_robot_instance :: "robot_env \<Rightarrow> string \<Rightarrow> string option \<Rightarrow> server \<Rightarrow> robot_inst outcome" where
  "get_robot_instance renv robot_id' end_effector_id st =
     (case map_of (SCENE_OBJECT_INSTANCES st) robot_id' of
        Some robot_inst \<Rightarrow>
          if \<not> inst_is_robot robot_inst then (st, Inl (Arcor2Exception ''Not a robot.''))
          else if truthy end_effector_id then
            (let st1 = emit (RobotQuery ''get_end_effectors_ids'') st
             in if the end_effector_id \<in> set (get_end_effectors_ids renv robot_inst)
                then (st1, Inr (RobotObject robot_inst))
                else (st1, Inl (Arcor2Exception ''Unknown end effector ID.'')))
          else (st, Inr (RobotObject robot_inst))
      | None \<Rightarrow>
          (case find_robot_service st of
             None \<Rightarrow> (st, Inl (Arcor2Exception ''Unknown robot ID.''))
           | Some robot_srv_inst \<Rightarrow>
               (let st1 = emit (RobotQuery ''get_robot_ids'') st
                in if robot_id' \<notin> set (get_robot_ids renv robot_srv_inst)
                   then (st1, Inl (Arcor2Exception ''Unknown robot ID.''))
                   else if truthy end_effector_id then
                     (let st2 = emit (RobotQuery ''get_end_effectors_ids'') st1
                      in if the end_effector_id
                              \<in> set (service_get_end_effectors_ids renv robot_srv_inst robot_id')
                         then (st2, Inr (RobotServiceInst robot_srv_inst))
                         else (st2, Inl (Arcor2Exception ''Unknown end effector ID.'')))
                   else (st1, Inr (RobotServiceInst robot_srv_inst)))))"

text \<open>
  \<^verbatim>\<open>get_end_effector_pose\<close>: a \<^verbatim>\<open>NotImplementedError\<close> of the driver becomes a
  \<^verbatim>\<open>RobotPoseException\<close>, any other exception of the driver leaves the procedure as
  it is.
\<close>

definition pose_or_exception :: "error + Pose \<Rightarrow> error + Pose" where
  "pose_or_exception r =
     (case r of
        Inl NotImplementedError \<Rightarrow> Inl (RobotPoseException ''The robot does not support getting pose.'')
      | Inl e \<Rightarrow> Inl e
      | Inr p \<Rightarrow> Inr p)"

definition get_end_effector_pose :: "robot_env \<Rightarrow> string \<Rightarrow> string \<Rightarrow> server \<Rightarrow> Pose outcome" where
  "get_end_effector_pose renv robot_id' end_effector' st =
     (case get_robot_instance renv robot_id' (Some end_effector') st of
        (st1, Inl e) \<Rightarrow> (st1, Inl e)
      | (st1, Inr (RobotObject robot_inst)) \<Rightarrow>
          (emit (RobotQuery ''get_end_effector_pose'') st1,
           pose_or_exception (robot_get_end_effector_pose renv robot_inst end_effector'))
      | (st1, Inr (RobotServiceInst robot_srv_inst)) \<Rightarrow>
          (emit (RobotQuery ''get_end_effector_pose'') st1,
           pose_or_exception (service_get_end_effector_pose renv robot_srv_inst robot_id' end_effector')))"

section \<open>Focus calibration\<close>


record FocusObjectArgs =
  object_id :: string
  point_idx :: int


text \<open>
  \<^verbatim>\<open>OBJECT_TYPES[get_obj_type_name(obj_id)]\<close>: the instance's class name, looked up in
  the catalogue; each lookup can raise KeyError.
\<close>

definition lookup_obj_type :: "server \<Rightarrow> string \<Rightarrow> error + ObjectTypeMeta" where
  "lookup_obj_type st obj_id =
     (case map_of (SCENE_OBJECT_INSTANCES st) obj_id of
        None \<Rightarrow> Inl KeyError
      | Some inst \<Rightarrow>
          (case map_of (OBJECT_TYPES st) (inst_class_name inst) of
             None \<Rightarrow> Inl KeyError
           | Some obj_type \<Rightarrow> Inr obj_type))"


text \<open>
  \<^verbatim>\<open>focus_object_cb\<close>, under \<^verbatim>\<open>@no_project\<close>. The payload of the response is
  \<^verbatim>\<open>finished_indexes\<close>, \<^verbatim>\<open>list(FOCUS_OBJECT[obj_id].keys())\<close>.
\<close>

definition focus_object_cb :: "robot_env \<Rightarrow> FocusObjectArgs \<Rightarrow> server \<Rightarrow> int list rpc_return outcome" where
  "focus_object_cb renv args st =
     (if PROJECT st \<noteq> None then (st, Inr (Failed ''Not available during project editing.''))
      else
        (let obj_id = object_id args; pt_idx = point_idx args
         in if obj_id \<notin> set (keys (SCENE_OBJECT_INSTANCES st)) then (st, Inr (Failed ''Unknown object_id.''))
            else
              (case lookup_obj_type st obj_id of
                 Inl e \<Rightarrow> (st, Inl e)
               | Inr obj_type \<Rightarrow>
                   (case object_model obj_type of
                      None \<Rightarrow> (st, Inl AssertionError)
                    | Some model \<Rightarrow>
                        (case mesh model of
                           None \<Rightarrow> (st, Inl AssertionError)
                         | Some m \<Rightarrow>
                             if focus_points m = [] then (st, Inl AssertionError)
                             else if pt_idx < 0 \<or> pt_idx > int (length (focus_points m)) - 1
                             then (st, Inr (Failed ''Index out of range.''))
                             else
                               (let st1 =
                                      (if obj_id \<in> set (keys (FOCUS_OBJECT st)) then st
                                       else (emit (LogMsg (''Start of focusing for '' @ obj_id @ ''.'')) st)
                                              \<lparr>FOCUS_OBJECT := AList.update obj_id [] (FOCUS_OBJECT st)\<rparr>)
                                in case map_of (FOCUS_OBJECT_ROBOT st1) obj_id of
                                     None \<Rightarrow> (st1, Inl KeyError)
                                   | Some robot \<Rightarrow>
                                       (case get_end_effector_pose renv (robot_id robot) (end_effector robot) st1 of
                                          (st2, Inl e) \<Rightarrow> (st2, Inl e)
                                        | (st2, Inr pose) \<Rightarrow>
                                            (case map_of (FOCUS_OBJECT st2) obj_id of
                                               None \<Rightarrow> (st2, Inl KeyError)
                                             | Some points \<Rightarrow>
                                                 (let st3 = st2\<lparr>FOCUS_OBJECT :=
                                                                  AList.update obj_id (AList.update pt_idx pose points)
                                                                    (FOCUS_OBJECT st2)\<rparr>
                                                  in case map_of (FOCUS_OBJECT st3) obj_id of
                                                       None \<Rightarrow> (st3, Inl KeyError)
                                                     | Some points' \<Rightarrow> (st3, Inr (Done (keys points'))))))))))))"

section \<open>\<^verbatim>\<open>update_action_object_cb\<close>\<close>

record UpdateActionObjectPoseArgs =
  update_id :: string
  update_robot :: RobotArg

text \<open>
  Modelled from the spec: \<^verbatim>\<open>get_scene_object\<close> is a function of
  \<^verbatim>\<open>arcor2.scene_utils\<close>, which is not among the files at hand. The spec names the
  failure (``Invalid action object'' for an id that is no object of the scene); the
  model returns the first object of the scene with the id and raises
  \<^verbatim>\<open>SceneObjectNotFound\<close> when there is none.
\<close>

definition get_scene_object :: "Scene \<Rightarrow> string \<Rightarrow> error + SceneObject" where
  "get_scene_object scene obj_id =
     (case find (\<lambda>obj. so_id obj = obj_id) (scene_objects scene) of
        None \<Rightarrow> Inl SceneObjectNotFound
      | Some obj \<Rightarrow> Inr obj)"

text \<open>
  \<^verbatim>\<open>scene_object.pose = ...\<close> assigns to the object found, which is an element of
  \<^verbatim>\<open>SCENE.objects\<close>: the first object with the id gets the pose.
\<close>

fun set_pose :: "string \<Rightarrow> Pose \<Rightarrow> SceneObject list \<Rightarrow> SceneObject list" where
  "set_pose obj_id pose [] = []"
| "set_pose obj_id pose (obj # objs) =
     (if so_id obj = obj_id then obj\<lparr>so_pose := pose\<rparr> # objs else obj # set_pose obj_id pose objs)"

text \<open>
  \<^verbatim>\<open>update_action_object_cb\<close> with its decorators: \<^verbatim>\<open>@scene_needed\<close> is checked first,
  then \<^verbatim>\<open>@no_project\<close>, then the body runs. Only \<^verbatim>\<open>RobotPoseException\<close> is caught around
  the robot query.
\<close>

definition update_action_object_cb ::
  "robot_env \<Rightarrow> UpdateActionObjectPoseArgs \<Rightarrow> server \<Rightarrow> unit rpc_return outcome" where
  "update_action_object_cb renv args st =
     (case SCENE st of
        None \<Rightarrow> (st, Inr (Failed ''Scene not opened or has invalid id.''))
      | Some scene \<Rightarrow>
          if scene_id scene = [] then (st, Inr (Failed ''Scene not opened or has invalid id.''))
          else if PROJECT st \<noteq> None then (st, Inr (Failed ''Not available during project editing.''))
          else if update_id args = robot_id (update_robot args)
          then (st, Inr (Failed ''Robot cannot update its own pose.''))
          else
            (case get_scene_object scene (update_id args) of
               Inl e \<Rightarrow> if e = SceneObjectNotFound then (st, Inr (Failed ''Invalid action object.'')) else (st, Inl e)
             | Inr scene_object \<Rightarrow>
                 (case get_end_effector_pose renv (robot_id (update_robot args))
                         (end_effector (update_robot args)) st of
                    (st1, Inl (RobotPoseException m)) \<Rightarrow> (st1, Inr (Failed m))
                  | (st1, Inl e) \<Rightarrow> (st1, Inl e)
                  | (st1, Inr pose) \<Rightarrow>
                      (emit (Scheduled ''notify_scene_change_to_others'')
                         (st1\<lparr>SCENE := Some (scene\<lparr>scene_objects :=
                                                 set_pose (update_id args) pose (scene_objects scene)\<rparr>)\<rparr>),
                       Inr (Done ())))))"

section \<open>Well-formed projects\<close>

text \<open>
  What the specification asks of a project before the validator may return no problem.
  An action matches the catalogue when its type parses, its target is an object or a
  service of the scene, the catalogue of the target's type (the object's type, or the
  service type itself) has an action of the name, and the action's parameters
  \<^verbatim>\<open>{id: type}\<close> equal that action's arguments \<^verbatim>\<open>{name: type}\<close>.
\<close>

definition action_matches_catalogue ::
  "parse_type_fn \<Rightarrow> ObjectActionsDict \<Rightarrow> (string, string) dict \<Rightarrow> string set \<Rightarrow> Action \<Rightarrow> bool" where
  "action_matches_catalogue parse_type ACTIONS scene_objs scene_srvs action =
     (case parse_type action of
        Inl e \<Rightarrow> False
      | Inr (obj_id, action_type') \<Rightarrow>
          (obj_id \<in> set (keys scene_objs) \<or> obj_id \<in> scene_srvs) \<and>
          (case map_of ACTIONS (case map_of scene_objs obj_id of Some t \<Rightarrow> t | None \<Rightarrow> obj_id) of
             None \<Rightarrow> False
           | Some acts \<Rightarrow>
               (case find (\<lambda>a. oa_name a = action_type') acts of
                  None \<Rightarrow> False
                | Some act \<Rightarrow>
                    dict_eq (dict_of (map (\<lambda>param. (param_id param, param_type param)) (parameters action)))
                            (dict_of (map (\<lambda>arg. (arg_name arg, arg_type arg)) (action_args act))))))"

text \<open>
  Every object of the project is an object of the scene, and every action matches the
  catalogue.
\<close>

definition targets_and_signatures_ok ::
  "parse_type_fn \<Rightarrow> ObjectActionsDict \<Rightarrow> Scene \<Rightarrow> Project \<Rightarrow> bool" where
  "targets_and_signatures_ok parse_type ACTIONS scene project =
     list_all (\<lambda>obj.
         po_id obj \<in> set (map so_id (scene_objects scene)) \<and>
         list_all (\<lambda>ap.
             list_all (action_matches_catalogue parse_type ACTIONS
                         (dict_of (map (\<lambda>obj. (so_id obj, so_type obj)) (scene_objects scene)))
                         (set (map srv_type (scene_services scene))))
               (actions ap))
           (action_points obj))
       (project_objects project)"

text \<open>
  A parameter of type POSE or JOINTS resolves when its value parses and names an object
  of the project and one of that object's action points.
\<close>

definition param_resolves :: "parse_id_fn \<Rightarrow> (string, string set) dict \<Rightarrow> ActionParameter \<Rightarrow> bool" where
  "param_resolves parse_id objects_aps param =
     (if param_type param = POSE \<or> param_type param = JOINTS then
        (case parse_id param of
           Inl e \<Rightarrow> False
         | Inr (p_obj_id, p_ap_id, val_id) \<Rightarrow>
             (case map_of objects_aps p_obj_id of None \<Rightarrow> False | Some aps \<Rightarrow> p_ap_id \<in> aps))
      else True)"

text \<open>All recorded joints are valid and every POSE or JOINTS parameter resolves.\<close>

definition joints_and_references_ok :: "parse_id_fn \<Rightarrow> Project \<Rightarrow> bool" where
  "joints_and_references_ok parse_id project =
     list_all (\<lambda>obj.
         list_all (\<lambda>ap.
             list_all is_valid (robot_joints ap) \<and>
             list_all (\<lambda>action.
                 list_all (param_resolves parse_id
                             (dict_of (map (\<lambda>obj. (po_id obj, set (map ap_id (action_points obj))))
                                         (project_objects project))))
                   (parameters action))
               (actions ap))
           (action_points obj))
       (project_objects project)"

text \<open>The ids of all actions of the project, in the order the validator visits them.\<close>

definition project_action_ids :: "Project \<Rightarrow> string list" where
  "project_action_ids project =
     concat (map (\<lambda>obj. concat (map (\<lambda>ap. map action_id (actions ap)) (action_points obj)))
               (project_objects project))"

section \<open>A scene and projects to run the validator on\<close>

definition box_scene :: Scene where
  "box_scene =
     \<lparr>scene_id = ''s1'',
      scene_objects = [\<lparr>so_id = ''box'', so_type = ''Box'', so_pose = Pose 0\<rparr>],
      scene_services = []\<rparr>"

definition box_ACTIONS :: ObjectActionsDict where
  "box_ACTIONS =
     [(''Box'', [\<lparr>oa_name = ''move'', action_args = [\<lparr>arg_name = ''to'', arg_type = POSE\<rparr>]\<rparr>,
                 \<lparr>oa_name = ''stop'', action_args = []\<rparr>])]"

definition stop_action :: "string \<Rightarrow> Action" where
  "stop_action aid = \<lparr>action_id = aid, action_type = ''box/stop'', parameters = []\<rparr>"

text \<open>Two actions with the id \<^verbatim>\<open>a1\<close> on one action point.\<close>

definition duplicate_id_project :: Project where
  "duplicate_id_project =
     \<lparr>project_id = ''p1'', project_scene_id = ''s1'',
      project_objects =
        [\<lparr>po_id = ''box'',
          action_points =
            [\<lparr>ap_id = ''ap1'', robot_joints = [], actions = [stop_action ''a1'', stop_action ''a1'']\<rparr>]\<rparr>]\<rparr>"

text \<open>No action, and joints that are marked invalid.\<close>

definition invalid_joints_project :: Project where
  "invalid_joints_project =
     \<lparr>project_id = ''p2'', project_scene_id = ''s1'',
      project_objects =
        [\<lparr>po_id = ''box'',
          action_points =
            [\<lparr>ap_id = ''ap1'',
              robot_joints = [\<lparr>joints_id = ''j1'', joints_robot_id = ''r1'', is_valid = False\<rparr>],
              actions = []\<rparr>]\<rparr>]\<rparr>"

text \<open>One action with a POSE parameter that names the project's own action point.\<close>

definition move_project :: Project where
  "move_project =
     \<lparr>project_id = ''p3'', project_scene_id = ''s1'',
      project_objects =
        [\<lparr>po_id = ''box'',
          action_points =
            [\<lparr>ap_id = ''ap1'',
              robot_joints = [\<lparr>joints_id = ''j1'', joints_robot_id = ''r1'', is_valid = True\<rparr>],
              actions =
                [\<lparr>action_id = ''a1'', action_type = ''box/move'',
                  parameters = [\<lparr>param_id = ''to'', param_type = POSE, param_value = ''box.ap1.p''\<rparr>]\<rparr>]\<rparr>]\<rparr>]\<rparr>"

section \<open>Bridges, requests and ticks to run the manager bridge on\<close>

definition request1 :: Request where
  "request1 = \<lparr>req_id = 1, req_body = ''first''\<rparr>"

definition request2 :: Request where
  "request2 = \<lparr>req_id = 2, req_body = ''second''\<rparr>"


definition idle_bridge :: bridge where
  "idle_bridge = \<lparr>MANAGER_RPC_REQUEST_QUEUE = [], MANAGER_RPC_RESPONSES = [], manager_sent = []\<rparr>"

definition two_queued :: bridge where
  "two_queued = idle_bridge\<lparr>MANAGER_RPC_REQUEST_QUEUE := [request1, request2]\<rparr>"

definition failing_tick :: tick where
  "failing_tick = \<lparr>future_done = False, arrived_during_get = [], send_ok = False, arrived_during_send = []\<rparr>"

definition sending_tick :: tick where
  "sending_tick = \<lparr>future_done = False, arrived_during_get = [], send_ok = True, arrived_during_send = []\<rparr>"


section \<open>Server states and collaborators to run the handlers on\<close>


text \<open>A server that has loaded nothing, and the same server with a scene open.\<close>

definition blank_server :: server where
  "blank_server =
     \<lparr>SCENE = None, PROJECT = None, OBJECT_TYPES = [], SERVICE_TYPES = [], ROBOT_META = [],
      SCENE_OBJECT_INSTANCES = [], SERVICES_INSTANCES = [], FOCUS_OBJECT = [],
      FOCUS_OBJECT_ROBOT = [], trace = []\<rparr>"

definition robot_self_update :: UpdateActionObjectPoseArgs where
  "robot_self_update = \<lparr>update_id = ''arm'', update_robot = \<lparr>robot_id = ''arm'', end_effector = ''tool''\<rparr>\<rparr>"

text \<open>Drivers of one robot with the end effector \<^verbatim>\<open>tool\<close>, which is at pose 7.\<close>

definition arm_drivers :: robot_env where
  "arm_drivers =
     \<lparr>get_end_effectors_ids = (\<lambda>robot. [''tool'']),
      get_robot_ids = (\<lambda>srv. []),
      service_get_end_effectors_ids = (\<lambda>srv robot. []),
      robot_get_end_effector_pose = (\<lambda>robot ee. Inr (Pose 7)),
      service_get_end_effector_pose = (\<lambda>srv robot ee. Inl NotImplementedError)\<rparr>"

text \<open>
  A catalogue with three object types: \<^verbatim>\<open>Box\<close> (built in, no services, no model),
  \<^verbatim>\<open>Gripper\<close> (needs the service \<^verbatim>\<open>RobotSrv\<close>) and \<^verbatim>\<open>Part\<close> (a mesh with two focus
  points); one service type, \<^verbatim>\<open>RobotSrv\<close>; and the robot type \<^verbatim>\<open>Arm\<close>, which supports
  focusing.
\<close>

definition box_meta :: ObjectTypeMeta where
  "box_meta = \<lparr>meta_type = ''Box'', abstract = False, needs_services = {}, object_model = None\<rparr>"

definition gripper_meta :: ObjectTypeMeta where
  "gripper_meta =
     \<lparr>meta_type = ''Gripper'', abstract = False, needs_services = {''RobotSrv''}, object_model = None\<rparr>"

definition part_meta :: ObjectTypeMeta where
  "part_meta =
     \<lparr>meta_type = ''Part'', abstract = False, needs_services = {},
      object_model = Some \<lparr>model_type = MESH,
                           mesh = Some \<lparr>mesh_id = ''m1'', focus_points = [Pose 1, Pose 2]\<rparr>\<rparr>\<rparr>"

definition catalogue_server :: server where
  "catalogue_server =
     blank_server
       \<lparr>OBJECT_TYPES := [(''Box'', box_meta), (''Gripper'', gripper_meta), (''Part'', part_meta)],
        SERVICE_TYPES := [(''RobotSrv'', \<lparr>service_meta_type = ''RobotSrv''\<rparr>)],
        ROBOT_META := [(''Arm'', \<lparr>robot_meta_type = ''Arm'', focus = True\<rparr>)]\<rparr>"

text \<open>
  The collaborators of the registry: the class \<^verbatim>\<open>Box\<close>, whose constructor keeps what it
  is given; the service class \<^verbatim>\<open>RobotSrv\<close>, a robot service; a store with the scenes
  \<^verbatim>\<open>s1\<close> (the box alone) and \<^verbatim>\<open>s2\<close> (the box and the service).
\<close>

definition box_class :: ObjectClass where
  "box_class =
     \<lparr>class_name = ''Box'', init_hints = [OtherHint, OtherHint, OtherHint],
      construct = (\<lambda>srvs oid pose model.
         Inr \<lparr>inst_id = oid, inst_class_name = ''Box'', inst_is_robot = False, inst_pose = pose,
              collision_model = model\<rparr>)\<rparr>"

definition robot_srv_class :: ServiceClass where
  "robot_srv_class =
     \<lparr>is_RobotService_subclass = True,
      construct_service = (\<lambda>cfg.
         Inr \<lparr>service_class_name = ''RobotSrv'', is_robot_service = True,
              service_configuration_id = cfg\<rparr>)\<rparr>"

definition cell_scene :: Scene where
  "cell_scene =
     \<lparr>scene_id = ''s2'',
      scene_objects = [\<lparr>so_id = ''box'', so_type = ''Box'', so_pose = Pose 0\<rparr>],
      scene_services = [\<lparr>srv_type = ''RobotSrv'', configuration_id = ''sim''\<rparr>]\<rparr>"

definition cell_env :: registry_env where
  "cell_env =
     \<lparr>is_valid_identifier = (\<lambda>s. s \<noteq> [] \<and> CHR '' '' \<notin> set s),
      built_in_types_names = {''Box''},
      get_built_in_type = (\<lambda>t. box_class),
      get_object_type = (\<lambda>t. Inl (PersistentStorageException ''no such object type'')),
      get_service_type = (\<lambda>t. if t = ''RobotSrv'' then Inr robot_srv_class
                               else Inl (PersistentStorageException ''no such service type'')),
      get_scene = (\<lambda>sid. if sid = ''s1'' then Inr box_scene
                          else if sid = ''s2'' then Inr cell_scene
                          else Inl (PersistentStorageException ''no such scene'')),
      collision_call = (\<lambda>add srv obj. None)\<rparr>"

definition gripper :: SceneObject where
  "gripper = \<lparr>so_id = ''gripper'', so_type = ''Gripper'', so_pose = Pose 0\<rparr>"

text \<open>
  A server with the scene \<^verbatim>\<open>s3\<close> open: the part \<^verbatim>\<open>part1\<close> and the robot \<^verbatim>\<open>arm\<close>, no
  focus session.
\<close>

definition focus_server :: server where
  "focus_server =
     catalogue_server
       \<lparr>SCENE := Some \<lparr>scene_id = ''s3'',
                        scene_objects = [\<lparr>so_id = ''part1'', so_type = ''Part'', so_pose = Pose 0\<rparr>,
                                         \<lparr>so_id = ''arm'', so_type = ''Arm'', so_pose = Pose 0\<rparr>],
                        scene_services = []\<rparr>,
        SCENE_OBJECT_INSTANCES :=
          [(''part1'', \<lparr>inst_id = ''part1'', inst_class_name = ''Part'', inst_is_robot = False,
                        inst_pose = Pose 0, collision_model = None\<rparr>),
           (''arm'', \<lparr>inst_id = ''arm'', inst_class_name = ''Arm'', inst_is_robot = True,
                      inst_pose = Pose 0, collision_model = None\<rparr>)]\<rparr>"


definition capture_part1 :: "int \<Rightarrow> FocusObjectArgs" where
  "capture_part1 idx = \<lparr>object_id = ''part1'', point_idx = idx\<rparr>"


text \<open>
  A server with the scene \<^verbatim>\<open>s4\<close> open, whose only object is the robot \<^verbatim>\<open>arm\<close>, at pose 3.
\<close>

definition arm_cell_server :: server where
  "arm_cell_server =
     blank_server
       \<lparr>SCENE := Some \<lparr>scene_id = ''s4'',
                        scene_objects = [\<lparr>so_id = ''arm'', so_type = ''Arm'', so_pose = Pose 3\<rparr>],
                        scene_services = []\<rparr>,
        SCENE_OBJECT_INSTANCES :=
          [(''arm'', \<lparr>inst_id = ''arm'', inst_class_name = ''Arm'', inst_is_robot = True,
                      inst_pose = Pose 3, collision_model = None\<rparr>)]\<rparr>"

section \<open>Properties of the validator\<close>

lemma keys_foldl_update:
  "set (keys (foldl (\<lambda>d kv. AList.update (fst kv) (snd kv) d) d0 items)) = set (keys d0) \<union> fst ` set items"
  by (induction items arbitrary: d0) (auto simp: keys_def dom_update)

lemma keys_dict_of: "set (keys (dict_of items)) = fst ` set items"
  by (simp add: dict_of_def keys_foldl_update) (simp add: keys_def)

lemma map_of_Some_keys: "map_of d k = Some v \<Longrightarrow> k \<in> set (keys d)"
  by (auto simp: keys_def dest!: map_of_SomeD intro: rev_image_eqI)

text \<open>\<^const>\<open>dict_eq\<close> decides the equality of the two dicts as maps.\<close>

lemma dict_eq_iff: "dict_eq d1 d2 \<longleftrightarrow> map_of d1 = map_of d2"
proof
  assume eq: "dict_eq d1 d2"
  show "map_of d1 = map_of d2"
  proof
    fix k
    show "map_of d1 k = map_of d2 k"
    proof (cases "k \<in> set (keys d1) \<or> k \<in> set (keys d2)")
      case True
      with eq show ?thesis by (auto simp: dict_eq_def list_all_iff)
    next
      case False
      then have "map_of d1 k = None" and "map_of d2 k = None"
        by (auto simp: keys_def map_of_eq_None_iff)
      then show ?thesis by simp
    qed
  qed
next
  assume "map_of d1 = map_of d2"
  then show "dict_eq d1 d2" by (simp add: dict_eq_def list_all_iff)
qed

lemma check_param_ok:
  assumes "param_resolves parse_id objects_aps param"
  shows "check_param parse_id objects_aps action param problems = Inr problems"
proof (cases "param_type param = POSE \<or> param_type param = JOINTS")
  case False
  then show ?thesis by (simp add: check_param_def)
next
  case True
  with assms obtain p_obj_id p_ap_id val_id aps where
    p: "parse_id param = Inr (p_obj_id, p_ap_id, val_id)"
    and m: "map_of objects_aps p_obj_id = Some aps" and i: "p_ap_id \<in> aps"
    by (auto simp: param_resolves_def split: sum.splits option.splits prod.splits if_splits)
  from m have "p_obj_id \<in> set (keys objects_aps)" by (rule map_of_Some_keys)
  with True p m i show ?thesis by (simp add: check_param_def)
qed

lemma for_each_check_param_ok:
  "list_all (param_resolves parse_id objects_aps) ps \<Longrightarrow>
   for_each (check_param parse_id objects_aps action) ps problems = Inr problems"
  by (induction ps) (simp_all add: check_param_ok)

lemma for_act_find:
  "find (\<lambda>a. oa_name a = t) acts = Some a \<Longrightarrow> for_act t acts act = (Some a, True)"
  by (induction acts arbitrary: act) (auto split: if_splits)

lemma foldl_update_replicate:
  "foldl (\<lambda>d kv. AList.update (fst kv) (snd kv) d) (AList.update (fst x) (snd x) d) (map (\<lambda>a. x) acts)
   = AList.update (fst x) (snd x) d"
  by (induction acts) simp_all

lemma foldl_update_repeat:
  "acts \<noteq> [] \<Longrightarrow>
   foldl (\<lambda>d kv. AList.update (fst kv) (snd kv) d) d (concat (map (\<lambda>param. map (\<lambda>a. f param) acts) args))
   = foldl (\<lambda>d kv. AList.update (fst kv) (snd kv) d) d (map f args)"
proof (induction args arbitrary: d)
  case Nil
  then show ?case by simp
next
  case (Cons p ps)
  from Cons.prems obtain a as where acts: "acts = a # as" by (cases acts) auto
  have "foldl (\<lambda>d kv. AList.update (fst kv) (snd kv) d) d (map (\<lambda>a. f p) acts)
        = AList.update (fst (f p)) (snd (f p)) d"
    using foldl_update_replicate [of "f p" d as] by (simp add: acts)
  with Cons show ?case by simp
qed

text \<open>
  Listing every argument once per catalogue entry gives the dict of the arguments, as
  long as the catalogue has an entry.
\<close>

lemma ot_params_repeat:
  "acts \<noteq> [] \<Longrightarrow> dict_of (concat (map (\<lambda>param. map (\<lambda>a. f param) acts) args)) = dict_of (map f args)"
  by (simp add: dict_of_def foldl_update_repeat)

lemma find_Some_nonempty: "find P xs = Some x \<Longrightarrow> xs \<noteq> []"
  by (cases xs) auto

lemma check_action_ok:
  assumes "action_matches_catalogue parse_type ACTIONS scene_objs scene_srvs action"
    and "list_all (param_resolves parse_id objects_aps) (parameters action)"
  shows "\<exists>act'. check_action parse_type parse_id ACTIONS scene_objs scene_srvs objects_aps {} obj ap action
            (problems, act) = Inr (problems, act')"
proof -
  from assms(1) obtain obj_id t acts a where
    p: "parse_type action = Inr (obj_id, t)"
    and m: "obj_id \<in> set (keys scene_objs) \<or> obj_id \<in> scene_srvs"
    and c: "map_of ACTIONS (case map_of scene_objs obj_id of Some t \<Rightarrow> t | None \<Rightarrow> obj_id) = Some acts"
    and f: "find (\<lambda>a. oa_name a = t) acts = Some a"
    and e: "dict_eq (dict_of (map (\<lambda>param. (param_id param, param_type param)) (parameters action)))
                    (dict_of (map (\<lambda>arg. (arg_name arg, arg_type arg)) (action_args a)))"
    by (auto simp: action_matches_catalogue_def split: sum.splits prod.splits option.splits)
  have ne: "acts \<noteq> []" using f by (rule find_Some_nonempty)
  have fa: "for_act t acts act = (Some a, True)" using f by (rule for_act_find)
  show ?thesis
    using m
    by (simp add: check_action_def p c fa e ot_params_repeat [OF ne]
        for_each_check_param_ok [OF assms(2)])
qed

lemma for_each_check_action_ok:
  assumes "list_all (\<lambda>action.
             action_matches_catalogue parse_type ACTIONS scene_objs scene_srvs action \<and>
             list_all (param_resolves parse_id objects_aps) (parameters action)) as"
  shows "\<exists>act'. for_each (check_action parse_type parse_id ACTIONS scene_objs scene_srvs objects_aps {} obj ap)
            as (problems, act) = Inr (problems, act')"
  using assms
proof (induction as arbitrary: act)
  case Nil
  then show ?case by simp
next
  case (Cons a as)
  from Cons.prems obtain act1 where
    "check_action parse_type parse_id ACTIONS scene_objs scene_srvs objects_aps {} obj ap a (problems, act)
     = Inr (problems, act1)"
    using check_action_ok [of parse_type ACTIONS scene_objs scene_srvs a parse_id objects_aps obj ap problems act]
    by auto
  moreover from Cons obtain act2 where
    "for_each (check_action parse_type parse_id ACTIONS scene_objs scene_srvs objects_aps {} obj ap)
       as (problems, act1) = Inr (problems, act2)"
    by force
  ultimately show ?case by simp
qed

lemma check_joints_ok:
  "list_all is_valid js \<Longrightarrow> foldl (\<lambda>problems joints. check_joints ap joints problems) problems js = problems"
  by (induction js) (simp_all add: check_joints_def)

lemma check_ap_ok:
  assumes "list_all is_valid (robot_joints ap)"
    and "list_all (\<lambda>action.
           action_matches_catalogue parse_type ACTIONS scene_objs scene_srvs action \<and>
           list_all (param_resolves parse_id objects_aps) (parameters action)) (actions ap)"
  shows "\<exists>act'. check_ap parse_type parse_id ACTIONS scene_objs scene_srvs objects_aps {} obj ap (problems, act)
           = Inr (problems, act')"
  using assms(1)
    for_each_check_action_ok [OF assms(2), of obj ap problems act]
  by (simp add: check_ap_def check_joints_ok)

lemma for_each_check_ap_ok:
  assumes "list_all (\<lambda>ap. list_all is_valid (robot_joints ap) \<and>
             list_all (\<lambda>action.
               action_matches_catalogue parse_type ACTIONS scene_objs scene_srvs action \<and>
               list_all (param_resolves parse_id objects_aps) (parameters action)) (actions ap)) aps"
  shows "\<exists>act'. for_each (check_ap parse_type parse_id ACTIONS scene_objs scene_srvs objects_aps {} obj)
            aps (problems, act) = Inr (problems, act')"
  using assms
proof (induction aps arbitrary: act)
  case Nil
  then show ?case by simp
next
  case (Cons a as)
  from Cons.prems obtain act1 where
    "check_ap parse_type parse_id ACTIONS scene_objs scene_srvs objects_aps {} obj a (problems, act)
     = Inr (problems, act1)"
    using check_ap_ok [of a parse_type ACTIONS scene_objs scene_srvs parse_id objects_aps obj problems act]
    by auto
  moreover from Cons obtain act2 where
    "for_each (check_ap parse_type parse_id ACTIONS scene_objs scene_srvs objects_aps {} obj)
       as (problems, act1) = Inr (problems, act2)"
    by force
  ultimately show ?case by simp
qed

lemma for_each_check_object_ok:
  assumes "list_all (\<lambda>obj. po_id obj \<in> set (keys scene_objs) \<and>
             list_all (\<lambda>ap. list_all is_valid (robot_joints ap) \<and>
               list_all (\<lambda>action.
                 action_matches_catalogue parse_type ACTIONS scene_objs scene_srvs action \<and>
                 list_all (param_resolves parse_id objects_aps) (parameters action)) (actions ap))
               (action_points obj)) objs"
  shows "\<exists>act'. for_each (check_object parse_type parse_id ACTIONS scene_objs scene_srvs objects_aps {})
            objs (problems, act) = Inr (problems, act')"
  using assms
proof (induction objs arbitrary: act)
  case Nil
  then show ?case by simp
next
  case (Cons a as)
  from Cons.prems obtain act1 where
    "check_object parse_type parse_id ACTIONS scene_objs scene_srvs objects_aps {} a (problems, act)
     = Inr (problems, act1)"
    using for_each_check_ap_ok [of parse_type ACTIONS scene_objs scene_srvs parse_id objects_aps
        "action_points a" a problems act]
    by (auto simp: check_object_def)
  moreover from Cons obtain act2 where
    "for_each (check_object parse_type parse_id ACTIONS scene_objs scene_srvs objects_aps {})
       as (problems, act1) = Inr (problems, act2)"
    by force
  ultimately show ?case by simp
qed

text \<open>
  C1. A project whose action points hold two actions with the same id gets a diagnostic
  that the id is not unique. The validator does not give it: \<^verbatim>\<open>action_ids\<close> stays empty,
  so the test \<^verbatim>\<open>action.id in action_ids\<close> never holds. On the project with two actions
  \<^verbatim>\<open>a1\<close> the validator returns no problem at all.
\<close>

theorem project_problems_duplicate_id_not_reported:
  "project_problems slash_parse_type dot_parse_id box_ACTIONS box_scene duplicate_id_project = Inr []"
  by (simp add: project_problems_def check_object_def check_ap_def check_action_def check_param_def
        check_joints_def dict_of_def dict_eq_def keys_def slash_parse_type_def dot_parse_id_def
        split_at_def box_scene_def box_ACTIONS_def duplicate_id_project_def stop_action_def)

text \<open>
  C2, as amended. When the action ids of the project are pairwise distinct, every object
  of the project is in the scene, every action matches the catalogue, all recorded
  joints are valid and every POSE or JOINTS parameter names an action point of an object
  of the project, the validator returns the empty list (and does not raise).
\<close>

theorem project_problems_empty:
  assumes "targets_and_signatures_ok parse_type ACTIONS scene project"
    and "joints_and_references_ok parse_id project"
    and "distinct (project_action_ids project)"
  shows "project_problems parse_type parse_id ACTIONS scene project = Inr []"
proof -
  let ?so = "dict_of (map (\<lambda>obj. (so_id obj, so_type obj)) (scene_objects scene))"
  let ?ss = "set (map srv_type (scene_services scene))"
  let ?oa = "dict_of (map (\<lambda>obj. (po_id obj, set (map ap_id (action_points obj)))) (project_objects project))"
  have k: "set (keys ?so) = set (map so_id (scene_objects scene))"
    by (simp add: keys_dict_of image_image)
  from assms(1,2) have "list_all (\<lambda>obj. po_id obj \<in> set (keys ?so) \<and>
      list_all (\<lambda>ap. list_all is_valid (robot_joints ap) \<and>
        list_all (\<lambda>action.
          action_matches_catalogue parse_type ACTIONS ?so ?ss action \<and>
          list_all (param_resolves parse_id ?oa) (parameters action)) (actions ap))
        (action_points obj)) (project_objects project)"
    unfolding targets_and_signatures_ok_def joints_and_references_ok_def k
    by (simp add: list_all_iff)
  then obtain act' where
    "for_each (check_object parse_type parse_id ACTIONS ?so ?ss ?oa {}) (project_objects project) ([], None)
     = Inr ([], act')"
    using for_each_check_object_ok [of ?so parse_type ACTIONS ?ss parse_id ?oa "project_objects project" "[]" None]
    by auto
  then show ?thesis by (simp add: project_problems_def)
qed

text \<open>
  The witness: the project with one \<^verbatim>\<open>box/move\<close> action, whose POSE parameter names
  the action point \<^verbatim>\<open>ap1\<close> of \<^verbatim>\<open>box\<close>.
\<close>

theorem project_problems_empty_witness:
  "targets_and_signatures_ok slash_parse_type box_ACTIONS box_scene move_project \<and>
   joints_and_references_ok dot_parse_id move_project \<and>
   distinct (project_action_ids move_project) \<and>
   project_problems slash_parse_type dot_parse_id box_ACTIONS box_scene move_project = Inr []"
proof -
  have t: "targets_and_signatures_ok slash_parse_type box_ACTIONS box_scene move_project"
    by (simp add: dict_of_def dict_eq_def keys_def slash_parse_type_def split_at_def box_scene_def
        box_ACTIONS_def targets_and_signatures_ok_def action_matches_catalogue_def move_project_def)
  have j: "joints_and_references_ok dot_parse_id move_project"
    by (simp add: dict_of_def keys_def dot_parse_id_def split_at_def joints_and_references_ok_def
        param_resolves_def move_project_def)
  have d: "distinct (project_action_ids move_project)"
    by (simp add: project_action_ids_def move_project_def)
  from t j d project_problems_empty [OF t j d] show ?thesis by simp
qed

text \<open>
  The claim as it was stated fails: the project with invalid joints has its object in
  the scene and no action at all, and the validator reports the joints.
\<close>

theorem project_problems_invalid_joints_counterexample:
  "targets_and_signatures_ok slash_parse_type box_ACTIONS box_scene invalid_joints_project \<and>
   project_problems slash_parse_type dot_parse_id box_ACTIONS box_scene invalid_joints_project
     = Inr [''Action point ap1 has invalid joints: j1 (robot r1).'']"
  by (simp add: project_problems_def check_object_def check_ap_def check_action_def check_param_def
        check_joints_def dict_of_def dict_eq_def keys_def slash_parse_type_def dot_parse_id_def
        split_at_def box_scene_def box_ACTIONS_def targets_and_signatures_ok_def invalid_joints_project_def)

section \<open>Properties of the manager bridge\<close>

lemma refused_then:
  "project_manager_client (map Refused arrivals @ later) b
   = project_manager_client later
       (b\<lparr>MANAGER_RPC_REQUEST_QUEUE := MANAGER_RPC_REQUEST_QUEUE b @ concat arrivals\<rparr>)"
  by (induction arrivals arbitrary: b) simp_all

text \<open>
  C3, as amended. When the send of a dequeued request fails, the request is put back at
  the back of the outbound queue, behind the requests that were queued after it, and the
  sender loop ends at once, whatever ticks remain. The connection loop then connects
  again: after any number of refused attempts, the new connection finds the request in
  the queue, behind the rest of the queue and before what arrived in the meantime, and
  its sender loop runs on exactly that queue.
\<close>

theorem send_failure_requeues:
  assumes "\<not> future_done t" and "\<not> send_ok t"
    and "MANAGER_RPC_REQUEST_QUEUE b @ arrived_during_get t = msg # rest"
  shows "sender_loop (t # ts) b
           = Some (b\<lparr>MANAGER_RPC_REQUEST_QUEUE := rest @ arrived_during_send t @ [msg]\<rparr>, ts) \<and>
         MANAGER_RPC_REQUEST_QUEUE (project_manager_client (Connected (t # ts) # map Refused arrivals) b)
           = rest @ arrived_during_send t @ [msg] @ concat arrivals \<and>
         project_manager_client (Connected (t # ts) # map Refused arrivals @ [Connected []]) b
           = b\<lparr>MANAGER_RPC_REQUEST_QUEUE := rest @ arrived_during_send t @ [msg] @ concat arrivals\<rparr> \<and>
         project_manager_client (Connected (t # ts) # map Refused arrivals @ [Connected (t2 # ts2)]) b
           = (case sender_loop (t2 # ts2)
                     (b\<lparr>MANAGER_RPC_REQUEST_QUEUE := rest @ arrived_during_send t @ [msg] @ concat arrivals\<rparr>) of
                None \<Rightarrow> fold (\<lambda>t b'. snd (sender_iteration t b')) (t2 # ts2)
                          (b\<lparr>MANAGER_RPC_REQUEST_QUEUE := rest @ arrived_during_send t @ [msg] @ concat arrivals\<rparr>)
              | Some (b', unused) \<Rightarrow> b')"
proof -
  from assms have it: "sender_iteration t b
      = (Break, b\<lparr>MANAGER_RPC_REQUEST_QUEUE := rest @ arrived_during_send t @ [msg]\<rparr>)"
    by (simp add: sender_iteration_def)
  then have lp: "sender_loop (t # ts) b
      = Some (b\<lparr>MANAGER_RPC_REQUEST_QUEUE := rest @ arrived_during_send t @ [msg]\<rparr>, ts)"
    by simp
  have a: "MANAGER_RPC_REQUEST_QUEUE (project_manager_client (Connected (t # ts) # map Refused arrivals) b)
           = rest @ arrived_during_send t @ [msg] @ concat arrivals"
    using lp refused_then [of arrivals "[]"] by simp
  have c: "project_manager_client (Connected (t # ts) # map Refused arrivals @ [Connected []]) b
           = b\<lparr>MANAGER_RPC_REQUEST_QUEUE := rest @ arrived_during_send t @ [msg] @ concat arrivals\<rparr>"
    using lp by (simp add: refused_then)
  have d: "project_manager_client (Connected (t # ts) # map Refused arrivals @ [Connected (t2 # ts2)]) b
           = (case sender_loop (t2 # ts2)
                     (b\<lparr>MANAGER_RPC_REQUEST_QUEUE := rest @ arrived_during_send t @ [msg] @ concat arrivals\<rparr>) of
                None \<Rightarrow> fold (\<lambda>t b'. snd (sender_iteration t b')) (t2 # ts2)
                          (b\<lparr>MANAGER_RPC_REQUEST_QUEUE := rest @ arrived_during_send t @ [msg] @ concat arrivals\<rparr>)
              | Some (b', unused) \<Rightarrow> b')"
    using lp by (simp add: refused_then split: option.splits prod.splits)
  from lp a c d show ?thesis by blast
qed

text \<open>
  The witness: two requests are queued and the send of the first fails. After two refused
  attempts the new connection finds both requests queued, the second first; when its two
  sends succeed, the request that was put back is written to the manager after the other.
\<close>

theorem send_failure_requeues_witness:
  "sender_loop [failing_tick, sending_tick] two_queued
     = Some (two_queued\<lparr>MANAGER_RPC_REQUEST_QUEUE := [request2, request1]\<rparr>, [sending_tick]) \<and>
   project_manager_client (Connected [failing_tick, sending_tick] # map Refused [[], []] @ [Connected []])
        two_queued
     = two_queued\<lparr>MANAGER_RPC_REQUEST_QUEUE := [request2, request1]\<rparr> \<and>
   project_manager_client
     (Connected [failing_tick, sending_tick] # map Refused [[], []] @ [Connected [sending_tick, sending_tick]])
     two_queued
     = two_queued\<lparr>MANAGER_RPC_REQUEST_QUEUE := [], manager_sent := [request2, request1]\<rparr>"
  using send_failure_requeues [of failing_tick two_queued request1 "[request2]" "[sending_tick]" "[[], []]"
      sending_tick "[sending_tick]"]
  by (simp add: failing_tick_def sending_tick_def two_queued_def idle_bridge_def sender_iteration_def)

text \<open>
  The claim as it was stated fails: after the failed send of the first of two queued
  requests the second one is at the front of the queue, not the one put back.
\<close>

theorem send_failure_front_counterexample:
  "sender_iteration failing_tick two_queued
     = (Break, two_queued\<lparr>MANAGER_RPC_REQUEST_QUEUE := [request2, request1]\<rparr>) \<and>
   hd (MANAGER_RPC_REQUEST_QUEUE (snd (sender_iteration failing_tick two_queued))) \<noteq> request1"
  by (simp add: sender_iteration_def failing_tick_def two_queued_def idle_bridge_def request1_def request2_def)










section \<open>Properties of the connection hub\<close>







section \<open>Properties of \<^verbatim>\<open>update_action_object_cb\<close>\<close>

text \<open>
  C10, as amended. A request whose target is the robot used for the measurement fails
  and leaves the whole state as it was: the scene with every object's pose, and the
  trace, so no robot was queried. The message is that of \<^verbatim>\<open>@scene_needed\<close> when no
  scene with an id is open, else that of \<^verbatim>\<open>@no_project\<close> when a project is open, else
  the message about the robot's own pose.
\<close>

theorem robot_cannot_update_own_pose:
  assumes "update_id args = robot_id (update_robot args)"
  shows "update_action_object_cb renv args st
           = (st, Inr (Failed
                (if (case SCENE st of None \<Rightarrow> True | Some scene \<Rightarrow> scene_id scene = [])
                 then ''Scene not opened or has invalid id.''
                 else if PROJECT st \<noteq> None then ''Not available during project editing.''
                 else ''Robot cannot update its own pose.'')))"
  using assms by (simp add: update_action_object_cb_def split: option.splits)

text \<open>
  The witness: the robot \<^verbatim>\<open>arm\<close>, at pose 3 in the open scene, is asked to update its
  own pose: with no project open, with a project open, and with a project but no scene.
\<close>

theorem robot_cannot_update_own_pose_witness:
  "update_action_object_cb arm_drivers robot_self_update arm_cell_server
     = (arm_cell_server, Inr (Failed ''Robot cannot update its own pose.'')) \<and>
   map so_pose (scene_objects (the (SCENE (fst (update_action_object_cb arm_drivers robot_self_update
                                                   arm_cell_server))))) = [Pose 3] \<and>
   update_action_object_cb arm_drivers robot_self_update (arm_cell_server\<lparr>PROJECT := Some \<lparr>project_id = ''p4'', project_scene_id = ''s4'', project_objects = []\<rparr>\<rparr>)
     = (arm_cell_server\<lparr>PROJECT := Some \<lparr>project_id = ''p4'', project_scene_id = ''s4'', project_objects = []\<rparr>\<rparr>, Inr (Failed ''Not available during project editing.'')) \<and>
   update_action_object_cb arm_drivers robot_self_update
       (arm_cell_server\<lparr>SCENE := None, PROJECT := Some \<lparr>project_id = ''p4'', project_scene_id = ''s4'', project_objects = []\<rparr>\<rparr>)
     = (arm_cell_server\<lparr>SCENE := None, PROJECT := Some \<lparr>project_id = ''p4'', project_scene_id = ''s4'', project_objects = []\<rparr>\<rparr>,
        Inr (Failed ''Scene not opened or has invalid id.''))"
proof -
  have h: "update_id robot_self_update = robot_id (update_robot robot_self_update)"
    by (simp add: robot_self_update_def)
  from robot_cannot_update_own_pose [OF h, of arm_drivers arm_cell_server]
    robot_cannot_update_own_pose [OF h, of arm_drivers "arm_cell_server\<lparr>PROJECT := Some \<lparr>project_id = ''p4'', project_scene_id = ''s4'', project_objects = []\<rparr>\<rparr>"]
    robot_cannot_update_own_pose [OF h, of arm_drivers "arm_cell_server\<lparr>SCENE := None, PROJECT := Some \<lparr>project_id = ''p4'', project_scene_id = ''s4'', project_objects = []\<rparr>\<rparr>"]
  show ?thesis by (simp add: arm_cell_server_def blank_server_def)
qed

text \<open>
  The claim as it was stated fails: with no scene open the same request is answered by
  the guard \<^verbatim>\<open>@scene_needed\<close>, with its own message.
\<close>

theorem robot_update_without_scene_counterexample:
  "update_id robot_self_update = robot_id (update_robot robot_self_update) \<and>
   update_action_object_cb arm_drivers robot_self_update blank_server
     = (blank_server, Inr (Failed ''Scene not opened or has invalid id.''))"
  by (simp add: update_action_object_cb_def robot_self_update_def blank_server_def)

section \<open>Properties of the registry\<close>

text \<open>Opening a scene replaces \<^verbatim>\<open>SCENE\<close> once; adding instances leaves it alone.\<close>

lemma collision_SCENE: "SCENE (fst (collision env obj rs add st)) = SCENE st"
  by (simp add: collision_def emit_def Let_def split: option.splits)

lemma collision_all_SCENE: "SCENE (fst (collision_all env insts rs st)) = SCENE st"
proof (induction insts arbitrary: st)
  case Nil
  then show ?case by simp
next
  case (Cons i insts)
  obtain st1 r where c: "collision env i (Some rs) True st = (st1, r)" by (cases "collision env i (Some rs) True st")
  with collision_SCENE [of env i "Some rs" True st] have "SCENE st1 = SCENE st" by simp
  with Cons c show ?case by (cases r) simp_all
qed

lemma collision_all_SCENE_eq: "collision_all env insts rs st = (st1, r) \<Longrightarrow> SCENE st1 = SCENE st"
  using collision_all_SCENE [of env insts rs st] by simp

lemma collision_SCENE_eq: "collision env obj rs add st = (st1, r) \<Longrightarrow> SCENE st1 = SCENE st"
  using collision_SCENE [of env obj rs add st] by simp

lemma add_service_to_scene_SCENE: "SCENE (fst (add_service_to_scene env srv st)) = SCENE st"
  by (auto simp: add_service_to_scene_def emit_def Let_def split: sum.splits prod.splits
      dest!: collision_all_SCENE_eq)

lemma add_services_SCENE: "SCENE (fst (add_services env srvs st)) = SCENE st"
proof (induction srvs arbitrary: st)
  case Nil
  then show ?case by simp
next
  case (Cons srv srvs)
  obtain st1 r where c: "add_service_to_scene env srv st = (st1, r)"
    by (cases "add_service_to_scene env srv st")
  with add_service_to_scene_SCENE [of env srv st] have s: "SCENE st1 = SCENE st" by simp
  show ?case
  proof (cases r)
    case (Inl e)
    with c s show ?thesis by simp
  next
    case (Inr res)
    obtain ok msg where "res = (ok, msg)" by (cases res)
    with Inr c s Cons [of "if ok then st1 else emit (LogMsg msg) st1"] show ?thesis
      by (simp add: emit_def)
  qed
qed

lemma add_object_to_scene_SCENE: "SCENE (fst (add_object_to_scene env obj False ok st)) = SCENE st"
  by (auto simp: add_object_to_scene_def emit_def Let_def
      split: option.splits instantiation_result.splits prod.splits sum.splits
      dest!: collision_SCENE_eq)

lemma add_objects_SCENE: "SCENE (fst (add_objects env objs st)) = SCENE st"
proof (induction objs arbitrary: st)
  case Nil
  then show ?case by simp
next
  case (Cons obj objs)
  obtain st1 r where c: "add_object_to_scene env obj False True st = (st1, r)"
    by (cases "add_object_to_scene env obj False True st")
  with add_object_to_scene_SCENE [of env obj True st] have s: "SCENE st1 = SCENE st" by simp
  show ?case
  proof (cases r)
    case (Inl e)
    with c s show ?thesis by simp
  next
    case (Inr res)
    obtain ok msg where "res = (ok, msg)" by (cases res)
    with Inr c s Cons [of "if ok then st1 else emit (LogMsg msg) st1"] show ?thesis
      by (simp add: emit_def)
  qed
qed

text \<open>
  C5. When \<^verbatim>\<open>open_scene\<close> ends without an exception, the scene it read from the store
  is the open scene, the ids of the live object instances are the ids of the scene's
  objects, and the types of the live services are the types of the scene's services.
\<close>

theorem open_scene_registry_matches_scene:
  assumes "open_scene env sid st = (st', Inr ())"
  shows "\<exists>scene. get_scene env sid = Inr scene \<and> SCENE st' = Some scene \<and>
           set (keys (SCENE_OBJECT_INSTANCES st')) = set (map so_id (scene_objects scene)) \<and>
           set (keys (SERVICES_INSTANCES st')) = set (map srv_type (scene_services scene))"
proof -
  from assms obtain scene where g: "get_scene env sid = Inr scene"
    by (auto simp: open_scene_def split: sum.splits)
  obtain st1 r1 where a1: "add_services env (scene_services scene) (st\<lparr>SCENE := Some scene\<rparr>) = (st1, r1)"
    by (cases "add_services env (scene_services scene) (st\<lparr>SCENE := Some scene\<rparr>)")
  obtain st2 r2 where a2: "add_objects env (scene_objects scene) st1 = (st2, r2)"
    by (cases "add_objects env (scene_objects scene) st1")
  from a1 add_services_SCENE [of env "scene_services scene" "st\<lparr>SCENE := Some scene\<rparr>"]
  have s1: "SCENE st1 = Some scene" by simp
  from a2 add_objects_SCENE [of env "scene_objects scene" st1] s1
  have s2: "SCENE st2 = Some scene" by simp
  from assms g a1 a2 s2 have
    "st' = emit (Scheduled ''notify_scene_change_to_others'') st2"
    and "set (map srv_type (scene_services scene)) = set (keys (SERVICES_INSTANCES st2))"
    and "set (map so_id (scene_objects scene)) = set (keys (SCENE_OBJECT_INSTANCES st2))"
    by (auto simp: open_scene_def split: sum.splits if_splits)
  with g s2 show ?thesis by (simp add: emit_def)
qed
text \<open>
  The witness: the scene \<^verbatim>\<open>s2\<close>, with the box and the robot service, opens on the server
  that has loaded the catalogue.
\<close>

theorem open_scene_registry_matches_scene_witness:
  "snd (open_scene cell_env ''s2'' catalogue_server) = Inr () \<and>
   SCENE (fst (open_scene cell_env ''s2'' catalogue_server)) = Some cell_scene \<and>
   set (keys (SCENE_OBJECT_INSTANCES (fst (open_scene cell_env ''s2'' catalogue_server)))) = {''box''} \<and>
   set (keys (SERVICES_INSTANCES (fst (open_scene cell_env ''s2'' catalogue_server)))) = {''RobotSrv''}"
proof -
  have r: "snd (open_scene cell_env ''s2'' catalogue_server) = Inr ()"
    by (simp add: open_scene_def add_service_to_scene_def add_object_to_scene_def instantiate_def
        collision_def find_robot_service_def emit_def keys_def dict_values_def cell_env_def
        cell_scene_def box_class_def robot_srv_class_def catalogue_server_def blank_server_def
        box_meta_def)
  then have "open_scene cell_env ''s2'' catalogue_server
      = (fst (open_scene cell_env ''s2'' catalogue_server), Inr ())"
    by (simp add: prod_eq_iff)
  from open_scene_registry_matches_scene [OF this] r show ?thesis
    by (auto simp: cell_env_def cell_scene_def)
qed

text \<open>
  C6, as amended. With a scene open, adding an object of a known type some of whose
  needed services have no instance fails and leaves the whole state as it was: the
  registry, the scene and the trace. Called for the re-opening of a scene
  (\<^verbatim>\<open>srv_obj_ok\<close>), the message says that a required service is not available (no such
  service type) or not in the scene; called otherwise, as the RPC does, the message is
  that the object is service-based.
\<close>

theorem add_object_missing_service_fails:
  assumes "SCENE st = Some scene"
    and "map_of (OBJECT_TYPES st) (so_type obj) = Some obj_meta"
    and "\<not> needs_services obj_meta \<subseteq> set (keys (SERVICES_INSTANCES st))"
  shows "add_object_to_scene env obj add_to_scene srv_obj_ok st
           = (st, Inr (False,
                if \<not> srv_obj_ok then ''Service(s)-based object.''
                else if needs_services obj_meta \<subseteq> set (keys (SERVICE_TYPES st))
                then ''Some of required services is not in the scene.''
                else ''Some of required services is not available.''))"
proof -
  from assms(3) have "needs_services obj_meta \<noteq> {}" by auto
  with assms show ?thesis by (simp add: add_object_to_scene_def)
qed

text \<open>The witness: a gripper is added to the scene with the box alone, in both ways.\<close>

theorem add_object_missing_service_fails_witness:
  "add_object_to_scene cell_env gripper True False (catalogue_server\<lparr>SCENE := Some box_scene\<rparr>)
     = (catalogue_server\<lparr>SCENE := Some box_scene\<rparr>, Inr (False, ''Service(s)-based object.'')) \<and>
   add_object_to_scene cell_env gripper False True (catalogue_server\<lparr>SCENE := Some box_scene\<rparr>)
     = (catalogue_server\<lparr>SCENE := Some box_scene\<rparr>,
        Inr (False, ''Some of required services is not in the scene.''))"
proof -
  let ?st = "catalogue_server\<lparr>SCENE := Some box_scene\<rparr>"
  have s: "SCENE ?st = Some box_scene" by simp
  have t: "map_of (OBJECT_TYPES ?st) (so_type gripper) = Some gripper_meta"
    by (simp add: catalogue_server_def blank_server_def gripper_def)
  have n: "\<not> needs_services gripper_meta \<subseteq> set (keys (SERVICES_INSTANCES ?st))"
    by (simp add: catalogue_server_def blank_server_def gripper_meta_def keys_def)
  have k: "needs_services gripper_meta \<subseteq> set (keys (SERVICE_TYPES ?st))"
    by (simp add: catalogue_server_def blank_server_def gripper_meta_def keys_def)
  from add_object_missing_service_fails [OF s t n, of cell_env True False]
    add_object_missing_service_fails [OF s t n, of cell_env False True] k
  show ?thesis by simp
qed

text \<open>
  The claim as it was stated fails: on the path of the RPC the message is not one of the
  two that say a service is unavailable.
\<close>

theorem add_object_service_based_counterexample:
  "\<not> needs_services gripper_meta \<subseteq> set (keys (SERVICES_INSTANCES (catalogue_server\<lparr>SCENE := Some box_scene\<rparr>))) \<and>
   snd (add_object_to_scene cell_env gripper True False (catalogue_server\<lparr>SCENE := Some box_scene\<rparr>))
     = Inr (False, ''Service(s)-based object.'') \<and>
   ''Service(s)-based object.'' \<noteq> ''Some of required services is not available.'' \<and>
   ''Service(s)-based object.'' \<noteq> ''Some of required services is not in the scene.''"
  by (simp add: add_object_to_scene_def keys_def catalogue_server_def blank_server_def
      gripper_def gripper_meta_def)

section \<open>Properties of the focus calibration\<close>





text \<open>
  C7. A capture for a known object that has no session starts one and returns the
  captured indices. The handler does not: it logs the start and opens the empty session,
  then looks the object up in \<^verbatim>\<open>FOCUS_OBJECT_ROBOT\<close>, where only
  \<^verbatim>\<open>focus_object_start_cb\<close> puts an entry, and raises KeyError.
\<close>

theorem capture_without_session_raises:
  "focus_object_cb arm_drivers (capture_part1 0) focus_server
     = (focus_server\<lparr>FOCUS_OBJECT := [(''part1'', [])],
                      trace := [LogMsg ''Start of focusing for part1.'']\<rparr>,
        Inl KeyError)"
  by (simp add: focus_object_cb_def lookup_obj_type_def emit_def keys_def Let_def capture_part1_def
      focus_server_def catalogue_server_def blank_server_def part_meta_def)

text \<open>
  The same for every state: without an entry in \<^verbatim>\<open>FOCUS_OBJECT_ROBOT\<close> no capture
  returns indices.
\<close>

lemma capture_needs_robot_entry:
  assumes "map_of (FOCUS_OBJECT_ROBOT st) (object_id args) = None"
  shows "snd (focus_object_cb renv args st) \<noteq> Inr (Done idxs)"
  using assms
  by (simp add: focus_object_cb_def emit_def Let_def
      split: sum.splits option.splits)



end
